theory Spec2Isabelle
  imports Main "HOL-Library.AList"
begin

section \<open>Python strings used by the sender\<close>

text \<open>
  A string is a list of characters, each a code point below 256. \<open>str.strip()\<close> removes
  from both ends the characters that \<open>str.isspace\<close> accepts; below 256 these are tab, line
  feed, vertical tab, form feed, carriage return, the four separators 0x1C..0x1F, the
  blank, the next-line control 0x85 and the no-break space 0xA0.
\<close>

definition is_space :: "char \<Rightarrow> bool" where
  "is_space c = (c \<in> set [CHR 0x09, CHR 0x0A, CHR 0x0B, CHR 0x0C, CHR 0x0D,
                           CHR 0x1C, CHR 0x1D, CHR 0x1E, CHR 0x1F, CHR 0x20,
                           CHR 0x85, CHR 0xA0])"

definition strip :: "string \<Rightarrow> string" where
  "strip s = rev (dropWhile is_space (rev (dropWhile is_space s)))"

definition startswith :: "string \<Rightarrow> string \<Rightarrow> bool" where
  "startswith s p = (take (length p) s = p)"

text \<open>
  \<open>str.lower()\<close>: below 256 the characters it changes are the letters A to Z and the
  accented capitals 0xC0..0xDE (without the sign 0xD7), each moved up by 0x20.
\<close>

definition lower_char :: "char \<Rightarrow> char" where
  "lower_char c =
     (case map_of
        (zip (''ABCDEFGHIJKLMNOPQRSTUVWXYZ'' @
           [CHR 0xC0, CHR 0xC1, CHR 0xC2, CHR 0xC3, CHR 0xC4, CHR 0xC5, CHR 0xC6, CHR 0xC7,
            CHR 0xC8, CHR 0xC9, CHR 0xCA, CHR 0xCB, CHR 0xCC, CHR 0xCD, CHR 0xCE, CHR 0xCF,
            CHR 0xD0, CHR 0xD1, CHR 0xD2, CHR 0xD3, CHR 0xD4, CHR 0xD5, CHR 0xD6, CHR 0xD8,
            CHR 0xD9, CHR 0xDA, CHR 0xDB, CHR 0xDC, CHR 0xDD, CHR 0xDE])
          (''abcdefghijklmnopqrstuvwxyz'' @
           [CHR 0xE0, CHR 0xE1, CHR 0xE2, CHR 0xE3, CHR 0xE4, CHR 0xE5, CHR 0xE6, CHR 0xE7,
            CHR 0xE8, CHR 0xE9, CHR 0xEA, CHR 0xEB, CHR 0xEC, CHR 0xED, CHR 0xEE, CHR 0xEF,
            CHR 0xF0, CHR 0xF1, CHR 0xF2, CHR 0xF3, CHR 0xF4, CHR 0xF5, CHR 0xF6, CHR 0xF8,
            CHR 0xF9, CHR 0xFA, CHR 0xFB, CHR 0xFC, CHR 0xFD, CHR 0xFE])) c of
        None \<Rightarrow> c
      | Some l \<Rightarrow> l)"

definition lower :: "string \<Rightarrow> string" where
  "lower s = map lower_char s"

definition digit_char :: "nat \<Rightarrow> char" where
  "digit_char d = ''0123456789'' ! d"

text \<open>Decimal rendering, as \<open>str(n)\<close> and the f-string \<open>{n}\<close> give it.\<close>

function str_nat :: "nat \<Rightarrow> string" where
  "str_nat n = (if n < 10 then [digit_char n] else str_nat (n div 10) @ [digit_char (n mod 10)])"
  by pat_completeness auto
termination
  by (relation "measure id") auto

declare str_nat.simps [simp del]

definition str_int :: "int \<Rightarrow> string" where
  "str_int n = (if n < 0 then CHR ''-'' # str_nat (nat (- n)) else str_nat (nat n))"

section \<open>Values: spreadsheet cells and JSON\<close>

text \<open>
  A cell of the data frame read from the workbook: a text, a whole number, or the NaN that
  pandas puts where the sheet is blank. (Fractional numbers and dates are not modelled.)
\<close>

datatype cell = CStr string | CInt int | CNaN

fun py_str :: "cell \<Rightarrow> string" where
  "py_str (CStr s) = s"
| "py_str (CInt n) = str_int n"
| "py_str CNaN = ''nan''"

text \<open>A row of the frame: column name and value, in column order.\<close>

type_synonym row = "(string \<times> cell) list"

text \<open>\<open>row.get(name, "")\<close>\<close>

definition row_get :: "row \<Rightarrow> string \<Rightarrow> cell" where
  "row_get r name = (case map_of r name of None \<Rightarrow> CStr [] | Some v \<Rightarrow> v)"

text \<open>
  JSON values, for the request body and for what \<open>response.json()\<close> returns. An object
  is a Python dict: keys in insertion order. (Numbers are whole numbers, as for the cells.)
\<close>

datatype json =
    JNull
  | JBool bool
  | JNum int
  | JStr string
  | JArr "json list"
  | JObj "(string \<times> json) list"

type_synonym pydict = "(string \<times> json) list"

text \<open>\<open>d[k] = v\<close> on a dict: replaces the value of a key in place, appends a new key.\<close>

definition dict_set :: "pydict \<Rightarrow> string \<Rightarrow> json \<Rightarrow> pydict" where
  "dict_set d k v = AList.update k v d"

text \<open>The name Python prints for the type of a decoded JSON value.\<close>

fun type_name :: "json \<Rightarrow> string" where
  "type_name JNull = ''NoneType''"
| "type_name (JBool _) = ''bool''"
| "type_name (JNum _) = ''int''"
| "type_name (JStr _) = ''str''"
| "type_name (JArr _) = ''list''"
| "type_name (JObj _) = ''dict''"

section \<open>The mapping of template fields\<close>

text \<open>
  One entry of \<open>column_mapping\<close>, as \<open>map_column\<close> returns it:
  \<open>{"type": "column", "value": selected_col}\<close> or \<open>{"type": "custom", "value": custom_val}\<close>.
\<close>

record mapinfo =
  mtype :: string
  mvalue :: string

text \<open>
  The variables of the send handler that \<open>send_message\<close> closes over. \<open>column_mapping\<close> is
  a dict: field name and entry, in insertion order.
\<close>

record config =
  image_url :: string
  image_col_map :: string
  column_mapping :: "(string \<times> mapinfo) list"
  template_id :: string

text \<open>
  Lines 231 to 234, the value of one template field for one row: a column entry reads the
  row (missing column: the empty string), renders with \<open>str\<close> and strips; any other entry
  is the text itself.
\<close>

definition resolve :: "row \<Rightarrow> mapinfo \<Rightarrow> string" where
  "resolve r m =
     (if mtype m = ''column'' then strip (py_str (row_get r (mvalue m))) else mvalue m)"

text \<open>Lines 218 to 224: uploaded image, else the row's image column, else no image.\<close>

definition final_img :: "config \<Rightarrow> row \<Rightarrow> string" where
  "final_img cfg r =
     (if image_url cfg \<noteq> [] then image_url cfg
      else if image_col_map cfg \<noteq> [] then
        (let row_img_url = strip (py_str (row_get r (image_col_map cfg)))
         in if startswith row_img_url ''http'' then row_img_url else [])
      else [])"

text \<open>Lines 227 to 235: the loop over \<open>column_mapping.items()\<close> that fills \<open>params\<close>.\<close>

fun build_params :: "row \<Rightarrow> (string \<times> mapinfo) list \<Rightarrow> pydict \<Rightarrow> pydict" where
  "build_params r [] params = params"
| "build_params r ((field, m) # rest) params =
     (if field = ''mobile_no'' then build_params r rest params
      else build_params r rest (dict_set params field (JStr (resolve r m))))"

section \<open>The template's fields and the mapping the handler builds\<close>

text \<open>
  \<open>re.findall(r"\{\{(.*?)\}\}", message)\<close>, line 145. \<open>split_close\<close> is the lazy group
  followed by the closing braces: the text up to the first \<open>}}\<close>, which no line feed may
  precede, and what follows it. After a match the search resumes behind it; where no match
  starts, one character further.
\<close>

fun split_close :: "string \<Rightarrow> (string \<times> string) option" where
  "split_close [] = None"
| "split_close (c # cs) =
     (if c = CHR ''}'' \<and> take 1 cs = ''}'' then Some ([], drop 1 cs)
      else if c = CHR 0x0A then None
      else (case split_close cs of None \<Rightarrow> None | Some (g, rest) \<Rightarrow> Some (c # g, rest)))"

function findall :: "string \<Rightarrow> string list" where
  "findall [] = []"
| "findall (c # cs) =
     (if c = CHR ''{'' \<and> take 1 cs = ''{'' then
        (case split_close (drop 1 cs) of
           None \<Rightarrow> findall cs
         | Some (g, rest) \<Rightarrow> g # findall rest)
      else findall cs)"
  by pat_completeness auto
termination
proof -
  have shorter: "length rest < length s" if "split_close s = Some (g, rest)" for s g rest
    using that
    by (induction s arbitrary: g) (auto split: if_splits option.splits)
  show ?thesis
    by (relation "measure length") (auto dest!: shorter)
qed

datatype py_error = IndexError | ValueError | DuplicateWidgetID

text \<open>
  A value of the template's saved \<open>mappings\<close> dict: an entry as above, or a plain string
  (the key \<open>image_column\<close>, line 205).
\<close>

datatype saved_entry = Entry mapinfo | Plain string

text \<open>
  What the user did with the three widgets of one field: the option picked, the column
  picked, the text typed; \<open>None\<close> where the widget was left as it came up.
\<close>

record clicks =
  radio_pick :: "string option"
  select_pick :: "string option"
  text_typed :: "string option"

text \<open>
  A widget returns its initial value until the user changes it: the option at \<open>index\<close>
  for \<open>st.radio\<close> and \<open>st.selectbox\<close> (a selectbox with no options returns \<open>None\<close>, which
  reads a row like a name the row does not have; the empty name stands for it), the
  \<open>value\<close> for \<open>st.text_input\<close>.
\<close>

definition st_choice :: "string list \<Rightarrow> nat \<Rightarrow> string option \<Rightarrow> string" where
  "st_choice options index pick =
     (case pick of
        Some c \<Rightarrow> c
      | None \<Rightarrow> (if index < length options then options ! index else []))"

definition st_text_input :: "string \<Rightarrow> string option \<Rightarrow> string" where
  "st_text_input val typed = (case typed of Some t \<Rightarrow> t | None \<Rightarrow> val)"

text \<open>\<open>columns.get_loc(value)\<close>, for a value that is among the columns.\<close>

fun get_loc :: "string list \<Rightarrow> string \<Rightarrow> nat" where
  "get_loc [] v = 0"
| "get_loc (c # cs) v = (if c = v then 0 else Suc (get_loc cs v))"

text \<open>
  \<open>map_column(label, columns, saved, key_prefix)\<close>, lines 43 to 67. \<open>saved\<close> is what the
  template's saved mapping holds for the field: \<open>None\<close> stands for the empty dict that
  \<open>saved_mapping.get(field, {})\<close> gives for a missing key.
\<close>

definition map_column :: "string list \<Rightarrow> saved_entry option \<Rightarrow> clicks \<Rightarrow> mapinfo" where
  "map_column columns saved ui =
     (let mapping_type0 = (case saved of Some (Entry m) \<Rightarrow> mtype m | _ \<Rightarrow> ''column'');
          val = (case saved of Some (Entry m) \<Rightarrow> mvalue m | Some (Plain v) \<Rightarrow> v | None \<Rightarrow> []);
          mapping_type =
            st_choice [''Column'', ''Custom''] (if mapping_type0 = ''column'' then 0 else 1)
              (radio_pick ui)
      in if mapping_type = ''Column'' then
           (let idx = (if val \<in> set columns then get_loc columns val else 0);
                selected_col = st_choice columns idx (select_pick ui)
            in \<lparr>mtype = ''column'', mvalue = selected_col\<rparr>)
         else
           (let custom_val = st_text_input val (text_typed ui)
            in \<lparr>mtype = ''custom'', mvalue = custom_val\<rparr>))"

text \<open>
  Lines 145 to 159: the required fields of the template body, the entry for \<open>mobile_no\<close>,
  then one entry for each required field, in a dict. \<open>saved_mapping\<close> is the template's
  saved \<open>mappings\<close> (empty for a new template, line 92); \<open>ui\<close> gives what the user did
  with the widgets of a field. The widgets of a field carry keys made from its name, so a
  field that occurs twice makes Streamlit stop the script (\<open>DuplicateWidgetID\<close>).
\<close>

definition build_column_mapping ::
  "string list \<Rightarrow> string \<Rightarrow> (string \<times> saved_entry) list \<Rightarrow> clicks \<Rightarrow> (string \<Rightarrow> clicks)
     \<Rightarrow> py_error + (string \<times> mapinfo) list" where
  "build_column_mapping columns message saved_mapping ui_mobile ui =
     (let required_fields = findall message
      in if distinct required_fields then
           Inr (fold (\<lambda>field cm.
                        AList.update field
                          (map_column columns (map_of saved_mapping field) (ui field)) cm)
                  required_fields
                  [(''mobile_no'',
                    map_column columns (map_of saved_mapping ''mobile_no'') ui_mobile)])
         else Inl DuplicateWidgetID)"

section \<open>The request body\<close>

text \<open>
  \<open>params\<close> is one dict object: the payload literal of line 237 holds a reference to it,
  and line 250 writes to it after the payload has been built. The store maps the address
  of a dict to its present contents; \<open>dumps\<close> is the serialisation that
  \<open>requests.post(url, json=payload, ...)\<close> performs when the request is made.
\<close>

type_synonym addr = nat

type_synonym store = "addr \<Rightarrow> pydict"

record payload =
  number :: string
  ntype :: string
  sender :: string
  templateId :: string
  params_ref :: addr

definition dumps :: "store \<Rightarrow> payload \<Rightarrow> json" where
  "dumps st p =
     JObj [(''userDetails'', JObj [(''number'', JStr (number p))]),
           (''notification'',
              JObj [(''type'', JStr (ntype p)),
                    (''sender'', JStr (sender p)),
                    (''templateId'', JStr (templateId p)),
                    (''params'', JObj (st (params_ref p)))])]"

text \<open>Member of a JSON object (\<open>None\<close> for a missing key or a value that is no object).\<close>

fun member :: "json \<Rightarrow> string \<Rightarrow> json option" where
  "member (JObj d) k = map_of d k"
| "member _ k = None"

section \<open>One send task\<close>

text \<open>
  What the network gives back to one \<open>requests.post\<close>: no answer at all, an exception of
  the transport (with its text), or a response with its status code and the outcome of
  \<open>response.json()\<close> on its body (the text of the decoding exception, or the decoded value).
  The call of line 252 passes no \<open>timeout\<close>, so with no answer it does not return.
\<close>

datatype reply = NoReply | Raises string | Response nat "string + json"

type_synonym result = "nat \<times> string \<times> json"

definition quote :: char where
  "quote = CHR 0x27"

text \<open>\<open>str(e)\<close> for the \<open>KeyError\<close> of \<open>column_mapping["mobile_no"]\<close>.\<close>

definition key_error_text :: "string \<Rightarrow> string" where
  "key_error_text k = quote # k @ [quote]"

text \<open>\<open>resp_json.get("message", default)\<close>: only a dict has \<open>get\<close>.\<close>

definition get_message :: "json \<Rightarrow> json \<Rightarrow> string + json" where
  "get_message resp_json dflt =
     (case resp_json of
        JObj d \<Rightarrow> (case map_of d ''message'' of None \<Rightarrow> Inr dflt | Some v \<Rightarrow> Inr v)
      | _ \<Rightarrow> Inl (quote # type_name resp_json @ quote # '' object has no attribute ''
                  @ quote # ''get'' @ [quote]))"

text \<open>Lines 253 to 259, for a call that returned a response.\<close>

definition classify :: "nat \<Rightarrow> nat \<Rightarrow> string + json \<Rightarrow> result" where
  "classify i status_code decoded =
     (case decoded of
        Inl e \<Rightarrow> (i, ''Error'', JStr e)
      | Inr resp_json \<Rightarrow>
          (if status_code = 200 \<or> status_code = 202 then
             (case get_message resp_json (JStr ''Success'') of
                Inl e \<Rightarrow> (i, ''Error'', JStr e)
              | Inr msg \<Rightarrow> (i, ''Sent'', msg))
           else
             (case get_message resp_json (JStr (''HTTP '' @ str_nat status_code)) of
                Inl e \<Rightarrow> (i, ''Error'', JStr e)
              | Inr msg \<Rightarrow> (i, ''Failed'', msg))))"

text \<open>
  Lines 216 to 250, what \<open>send_message\<close> does before the call: the body that will be
  posted, or the text of the exception raised on the way (\<open>column_mapping["mobile_no"]\<close>
  with no such key).
\<close>

definition build_body :: "config \<Rightarrow> row \<Rightarrow> string + json" where
  "build_body cfg r =
     (let img = final_img cfg r;
          a = (0::addr);
          st0 = (\<lambda>_. []) (a := build_params r (column_mapping cfg) [])
      in case map_of (column_mapping cfg) ''mobile_no'' of
           None \<Rightarrow> Inl (key_error_text ''mobile_no'')
         | Some mob \<Rightarrow>
             (let p = \<lparr>number = py_str (row_get r (mvalue mob)),
                       ntype = ''whatsapp'',
                       sender = ''919311239211'',
                       templateId = template_id cfg,
                       params_ref = a\<rparr>;
                  st1 = (if img \<noteq> []
                         then st0 (a := dict_set (st0 a) ''media'' (JObj [(''mediaLink'', JStr img)]))
                         else st0)
              in Inr (dumps st1 p)))"

text \<open>
  \<open>send_message(i, row)\<close>, lines 215 to 259. The first component is the list of request
  bodies the task posted; the second is the returned triple, \<open>None\<close> when the call of
  line 252 never returns. \<open>post\<close> is the network's reply to a body.
\<close>

definition send_message ::
  "config \<Rightarrow> (json \<Rightarrow> reply) \<Rightarrow> nat \<Rightarrow> row \<Rightarrow> json list \<times> result option" where
  "send_message cfg post i r =
     (case build_body cfg r of
        Inl e \<Rightarrow> ([], Some (i, ''Error'', JStr e))
      | Inr body \<Rightarrow>
          (case post body of
             NoReply \<Rightarrow> ([body], None)
           | Raises e \<Rightarrow> ([body], Some (i, ''Error'', JStr e))
           | Response status_code decoded \<Rightarrow> ([body], Some (classify i status_code decoded))))"

abbreviation posted :: "json list \<times> result option \<Rightarrow> json list" where
  "posted t \<equiv> fst t"

abbreviation outcome :: "json list \<times> result option \<Rightarrow> result option" where
  "outcome t \<equiv> snd t"

section \<open>The batch: submission and merge\<close>

text \<open>
  Lines 266 and 267: one task per row of the frame, numbered by \<open>df.iterrows()\<close> from 0
  (the frame comes from \<open>pd.read_excel\<close>, whose index is the row position), handed to a
  pool of ten workers. \<open>net i\<close> is the network's reply to the request of task \<open>i\<close>.
  The workers take the tasks in the order of submission. A worker whose call never returns
  stays taken; \<open>blocked\<close> counts these. Once all ten are taken no further task starts:
  such a task posts nothing and never returns.
\<close>

definition max_workers :: nat where
  "max_workers = 10"

fun run_pool ::
  "config \<Rightarrow> (nat \<Rightarrow> json \<Rightarrow> reply) \<Rightarrow> nat \<Rightarrow> (nat \<times> row) list
     \<Rightarrow> (json list \<times> result option) list" where
  "run_pool cfg net blocked [] = []"
| "run_pool cfg net blocked ((i, r) # rest) =
     (if max_workers \<le> blocked then ([], None) # run_pool cfg net blocked rest
      else
        (let t = send_message cfg (net i) i r
         in t # run_pool cfg net (if outcome t = None then Suc blocked else blocked) rest))"

definition submit_all ::
  "config \<Rightarrow> (nat \<Rightarrow> json \<Rightarrow> reply) \<Rightarrow> row list \<Rightarrow> (json list \<times> result option) list" where
  "submit_all cfg net df = run_pool cfg net 0 (enumerate 0 df)"

definition requests_made :: "config \<Rightarrow> (nat \<Rightarrow> json \<Rightarrow> reply) \<Rightarrow> row list \<Rightarrow> json list" where
  "requests_made cfg net df = concat (map posted (submit_all cfg net df))"

text \<open>
  Lines 268 to 271, the body of the loop over \<open>as_completed(futures)\<close>: an assignment to
  a list position that does not exist raises \<open>IndexError\<close>.
\<close>

fun merge_loop ::
  "result list \<Rightarrow> string list \<times> json list \<Rightarrow> py_error + string list \<times> json list" where
  "merge_loop [] acc = Inr acc"
| "merge_loop ((i, stat, msg) # rest) (status, response_texts) =
     (if length status \<le> i then Inl IndexError
      else if length response_texts \<le> i then Inl IndexError
      else merge_loop rest (status[i := stat], response_texts[i := msg]))"

text \<open>
  Lines 212 to 273. \<open>order\<close> is the order in which the futures complete, as positions in
  \<open>futures\<close> (every position of the list, once). \<open>as_completed\<close> yields every future once
  it is done, so the loop ends only when every task has returned: the result is \<open>None\<close>
  when some task never does.
\<close>

definition completion :: "(json list \<times> result option) list \<Rightarrow> nat list \<Rightarrow> result list" where
  "completion futures order = map (\<lambda>k. the (outcome (futures ! k))) order"

definition dispatch ::
  "config \<Rightarrow> (nat \<Rightarrow> json \<Rightarrow> reply) \<Rightarrow> row list \<Rightarrow> nat list
     \<Rightarrow> (py_error + string list \<times> json list) option" where
  "dispatch cfg net df order =
     (let status = replicate (length df) [];
          response_texts = replicate (length df) (JStr []);
          futures = submit_all cfg net df
      in if list_ex (\<lambda>f. outcome f = None) futures then None
         else Some (merge_loop (completion futures order) (status, response_texts)))"

section \<open>The report\<close>

text \<open>
  A cell of the frame once lines 275 and 276 have added the two result columns: a cell of
  the workbook, or a value of a result list.
\<close>

datatype fcell = Orig cell | Res json

text \<open>\<open>df[name] = values\<close>: replaces the column of that name, or appends a new one.\<close>

definition set_column ::
  "string \<Rightarrow> fcell list \<Rightarrow> (string \<times> fcell) list list \<Rightarrow> (string \<times> fcell) list list" where
  "set_column name vals df = map (\<lambda>(r, v). AList.update name v r) (zip df vals)"

text \<open>
  What \<open>load_workbook\<close> reads back from a cell written by \<open>df.to_excel\<close>: a blank for NaN
  and \<open>None\<close>; a list or a dict cannot be written (\<open>ValueError\<close>).
\<close>

datatype xl = XNone | XStr string | XInt int | XBool bool

fun xl_of :: "fcell \<Rightarrow> py_error + xl" where
  "xl_of (Orig (CStr s)) = Inr (XStr s)"
| "xl_of (Orig (CInt n)) = Inr (XInt n)"
| "xl_of (Orig CNaN) = Inr XNone"
| "xl_of (Res JNull) = Inr XNone"
| "xl_of (Res (JBool b)) = Inr (XBool b)"
| "xl_of (Res (JNum n)) = Inr (XInt n)"
| "xl_of (Res (JStr s)) = Inr (XStr s)"
| "xl_of (Res (JArr _)) = Inl ValueError"
| "xl_of (Res (JObj _)) = Inl ValueError"

fun xl_row :: "fcell list \<Rightarrow> py_error + xl list" where
  "xl_row [] = Inr []"
| "xl_row (c # cs) =
     (case xl_of c of
        Inl e \<Rightarrow> Inl e
      | Inr v \<Rightarrow> (case xl_row cs of Inl e \<Rightarrow> Inl e | Inr vs \<Rightarrow> Inr (v # vs)))"

text \<open>A cell of the sheet: its value and whether it has the red fill.\<close>

type_synonym wcell = "xl \<times> bool"

text \<open>The data rows of the sheet (rows 2 to \<open>max_row\<close>; row 1 is the header).\<close>

fun to_excel :: "(string \<times> fcell) list list \<Rightarrow> py_error + wcell list list" where
  "to_excel [] = Inr []"
| "to_excel (r # rs) =
     (case xl_row (map snd r) of
        Inl e \<Rightarrow> Inl e
      | Inr vs \<Rightarrow>
          (case to_excel rs of
             Inl e \<Rightarrow> Inl e
           | Inr ws \<Rightarrow> Inr (map (\<lambda>v. (v, False)) vs # ws)))"

fun xl_str :: "xl \<Rightarrow> string" where
  "xl_str XNone = ''None''"
| "xl_str (XStr s) = s"
| "xl_str (XInt n) = str_int n"
| "xl_str (XBool b) = (if b then ''True'' else ''False'')"

text \<open>\<open>ws[f"D{row_idx}"].value\<close>: the fourth cell of the row, blank when the row is shorter.\<close>

definition column_D :: "wcell list \<Rightarrow> xl" where
  "column_D r = (if 3 < length r then fst (r ! 3) else XNone)"

text \<open>Lines 288 to 290: the test on column D, and the fill of every cell of the row.\<close>

definition highlight_row :: "wcell list \<Rightarrow> wcell list" where
  "highlight_row r =
     (if lower (xl_str (column_D r)) \<in> set [''failed'', ''error'']
      then map (\<lambda>(v, f). (v, True)) r
      else r)"

definition highlight :: "wcell list list \<Rightarrow> wcell list list" where
  "highlight ws = map highlight_row ws"

text \<open>
  Lines 275 to 291: the result columns, the sheet, the fill. A column of another length
  than the frame is refused by pandas (\<open>ValueError\<close>).
\<close>

definition build_report ::
  "row list \<Rightarrow> string list \<Rightarrow> json list \<Rightarrow> py_error + wcell list list" where
  "build_report df status response_texts =
     (if length status = length df \<and> length response_texts = length df then
        (let df0 = map (map (\<lambda>(k, c). (k, Orig c))) df;
             df1 = set_column ''Status'' (map (\<lambda>s. Res (JStr s)) status) df0;
             df2 = set_column ''API Response'' (map Res response_texts) df1
         in case to_excel df2 of
              Inl e \<Rightarrow> Inl e
            | Inr ws \<Rightarrow> Inr (highlight ws))
      else Inl ValueError)"

text \<open>A row carries the marking when its cells have the fill.\<close>

definition marked :: "wcell list \<Rightarrow> bool" where
  "marked r = (r \<noteq> [] \<and> list_all snd r)"

section \<open>A sample batch\<close>

definition demo_cfg :: config where
  "demo_cfg =
     \<lparr>image_url = [],
      image_col_map = ''Img'',
      column_mapping =
        [(''mobile_no'', \<lparr>mtype = ''column'', mvalue = ''Phone''\<rparr>),
         (''name'', \<lparr>mtype = ''column'', mvalue = ''Name''\<rparr>),
         (''code'', \<lparr>mtype = ''custom'', mvalue = ''X1''\<rparr>)],
      template_id = ''welcome_01''\<rparr>"

definition demo_row :: row where
  "demo_row = [(''Phone'', CInt 919000000001), (''Name'', CStr '' Alice ''), (''Img'', CStr ''https://img.example/a.png'')]"

definition demo_body :: json where
  "demo_body =
     JObj [(''userDetails'', JObj [(''number'', JStr ''919000000001'')]),
           (''notification'',
              JObj [(''type'', JStr ''whatsapp''),
                    (''sender'', JStr ''919311239211''),
                    (''templateId'', JStr ''welcome_01''),
                    (''params'',
                       JObj [(''name'', JStr ''Alice''),
                             (''code'', JStr ''X1''),
                             (''media'', JObj [(''mediaLink'', JStr ''https://img.example/a.png'')])])])]"

definition custom_mobile_cfg :: config where
  "custom_mobile_cfg =
     \<lparr>image_url = [],
      image_col_map = [],
      column_mapping =
        [(''mobile_no'', \<lparr>mtype = ''custom'', mvalue = ''919000000002''\<rparr>),
         (''name'', \<lparr>mtype = ''column'', mvalue = ''Name''\<rparr>)],
      template_id = ''welcome_01''\<rparr>"

definition demo_df :: "row list" where
  "demo_df = [demo_row, demo_row, demo_row]"

definition demo_net :: "nat \<Rightarrow> json \<Rightarrow> reply" where
  "demo_net k body =
     (if k = 0 then Response 200 (Inr (JObj []))
      else if k = 1 then Raises ''connection reset''
      else Response 500 (Inr (JObj [(''message'', JStr ''template not found'')])))"

definition one_column_df :: "row list" where
  "one_column_df = [[(''Phone'', CInt 919000000001)]]"

definition four_column_df :: "row list" where
  "four_column_df =
     [[(''Phone'', CInt 919000000001), (''Name'', CStr ''Alice''), (''City'', CStr ''Pune''),
       (''Note'', CStr ''Error'')]]"

definition three_column_df :: "row list" where
  "three_column_df =
     [[(''Phone'', CInt 1), (''Name'', CStr ''Alice''), (''City'', CStr ''Pune'')],
      [(''Phone'', CInt 2), (''Name'', CStr ''Bob''), (''City'', CStr ''Agra'')],
      [(''Phone'', CInt 3), (''Name'', CStr ''Eve''), (''City'', CStr ''Goa'')]]"

text \<open>
  A template that was just created: its saved mapping is empty (line 92), its body has one
  placeholder, and the user presses send without touching a mapping widget. The table has
  the columns Phone, Name and Img; \<open>new_template_cfg\<close> holds the mapping the handler builds.
\<close>

definition untouched :: clicks where
  "untouched = \<lparr>radio_pick = None, select_pick = None, text_typed = None\<rparr>"

definition new_template_cfg :: config where
  "new_template_cfg =
     \<lparr>image_url = [],
      image_col_map = [],
      column_mapping =
        [(''mobile_no'', \<lparr>mtype = ''column'', mvalue = ''Phone''\<rparr>),
         (''name'', \<lparr>mtype = ''column'', mvalue = ''Phone''\<rparr>)],
      template_id = ''welcome_01''\<rparr>"

section \<open>Auxiliary facts\<close>

lemma strip_empty: "strip [] = []"
  by (simp add: strip_def)

lemma str_nat_919000000001: "str_nat 919000000001 = ''919000000001''"
  by (simp add: str_nat.simps digit_char_def)

lemma demo_final_img: "final_img demo_cfg demo_row = ''https://img.example/a.png''"
  by (simp add: final_img_def demo_cfg_def demo_row_def row_get_def strip_def is_space_def
      startswith_def)

lemma demo_build_body: "build_body demo_cfg demo_row = Inr demo_body"
  unfolding build_body_def demo_final_img
  by (simp add: demo_cfg_def demo_row_def demo_body_def dumps_def dict_set_def resolve_def
      row_get_def strip_def is_space_def str_int_def str_nat_919000000001)

lemma get_message_obj:
  "get_message (JObj d) dflt = Inr (case map_of d ''message'' of None \<Rightarrow> dflt | Some v \<Rightarrow> v)"
  by (simp add: get_message_def split: option.splits)

lemma get_message_not_obj:
  "(\<forall>d. j \<noteq> JObj d) \<Longrightarrow>
   get_message j dflt
     = Inl (quote # type_name j @ quote # '' object has no attribute '' @ quote # ''get'' @ [quote])"
  by (cases j) (simp_all add: get_message_def)

lemma outcome_None_iff:
  "outcome (send_message cfg post i r) = None \<longleftrightarrow> (\<exists>b. build_body cfg r = Inr b \<and> post b = NoReply)"
  by (auto simp add: send_message_def split: sum.splits reply.splits)

lemma run_pool_all_return:
  "blocked < max_workers \<Longrightarrow>
   \<forall>(i, r)\<in>set tasks. outcome (send_message cfg (net i) i r) \<noteq> None \<Longrightarrow>
   run_pool cfg net blocked tasks = map (\<lambda>(i, r). send_message cfg (net i) i r) tasks"
  by (induction cfg net blocked tasks rule: run_pool.induct) (auto simp add: Let_def)

lemma run_pool_hang_iff:
  "list_ex (\<lambda>f. outcome f = None) (run_pool cfg net blocked tasks)
     \<longleftrightarrow> (\<exists>(i, r)\<in>set tasks. outcome (send_message cfg (net i) i r) = None)
         \<or> (max_workers \<le> blocked \<and> tasks \<noteq> [])"
  by (induction cfg net blocked tasks rule: run_pool.induct) (auto simp add: Let_def)

lemma enumerate_rows:
  "(\<exists>(i, r)\<in>set (enumerate 0 df). P i r) \<longleftrightarrow> (\<exists>k<length df. P k (df ! k))"
  by (auto simp add: in_set_enumerate_eq)

lemma submit_all_nth:
  assumes "\<forall>k<length df. outcome (send_message cfg (net k) k (df ! k)) \<noteq> None"
  shows "submit_all cfg net df = map (\<lambda>k. send_message cfg (net k) k (df ! k)) [0..<length df]"
proof -
  have "\<forall>(i, r)\<in>set (enumerate 0 df). outcome (send_message cfg (net i) i r) \<noteq> None"
    using assms by (auto simp add: in_set_enumerate_eq)
  then have "submit_all cfg net df
      = map (\<lambda>(i, r). send_message cfg (net i) i r) (enumerate 0 df)"
    unfolding submit_all_def by (intro run_pool_all_return) (simp_all add: max_workers_def)
  also have "\<dots> = map (\<lambda>k. send_message cfg (net k) k (df ! k)) [0..<length df]"
    by (rule nth_equalityI) (simp_all add: nth_enumerate_eq)
  finally show ?thesis .
qed

lemma update_entries:
  "(k, v) \<in> set (AList.update k' v' al) \<Longrightarrow> (k, v) = (k', v') \<or> (k, v) \<in> set al"
  by (induction al) (auto split: if_splits)

lemma build_params_entries:
  "(k, v) \<in> set (build_params r cm acc) \<Longrightarrow>
   (k, v) \<in> set acc \<or> (k \<noteq> ''mobile_no'' \<and> (\<exists>m. (k, m) \<in> set cm \<and> v = JStr (resolve r m)))"
proof (induction r cm acc rule: build_params.induct)
  case (1 r params)
  then show ?case by simp
next
  case (2 r field m rest params)
  show ?case
  proof (cases "field = ''mobile_no''")
    case True
    with 2 show ?thesis by auto
  next
    case False
    with 2 have "(k, v) \<in> set (dict_set params field (JStr (resolve r m)))
        \<or> (k \<noteq> ''mobile_no'' \<and> (\<exists>m. (k, m) \<in> set rest \<and> v = JStr (resolve r m)))"
      by simp
    then show ?thesis
      using False by (auto simp add: dict_set_def dest!: update_entries)
  qed
qed

lemma outcome_index:
  "outcome (send_message cfg post i r) = Some (j, stat, msg) \<Longrightarrow> j = i"
  by (auto simp add: send_message_def classify_def
      split: sum.splits reply.splits if_splits)

lemma count_list_distinct:
  "distinct xs \<Longrightarrow> x \<in> set xs \<Longrightarrow> count_list xs x = 1"
  by (induction xs) auto

lemma merge_loop_writes:
  assumes "distinct order" and "\<forall>k\<in>set order. k < n" and "length s = n" and "length t = n"
    and "\<forall>k\<in>set order. fst (f k) = k"
  shows "\<exists>s' t'. merge_loop (map f order) (s, t) = Inr (s', t')
           \<and> length s' = n \<and> length t' = n
           \<and> (\<forall>i<n. s' ! i = (if i \<in> set order then fst (snd (f i)) else s ! i)
                  \<and> t' ! i = (if i \<in> set order then snd (snd (f i)) else t ! i))"
  using assms
proof (induction order arbitrary: s t)
  case Nil
  then show ?case by simp
next
  case (Cons k rest)
  obtain stat msg where fk: "f k = (k, stat, msg)"
    using Cons.prems(5) by (cases "f k") auto
  have k: "k < n" and notin: "k \<notin> set rest"
    using Cons.prems by auto
  have "\<exists>s' t'. merge_loop (map f rest) (s[k := stat], t[k := msg]) = Inr (s', t')
           \<and> length s' = n \<and> length t' = n
           \<and> (\<forall>i<n. s' ! i = (if i \<in> set rest then fst (snd (f i)) else s[k := stat] ! i)
                  \<and> t' ! i = (if i \<in> set rest then snd (snd (f i)) else t[k := msg] ! i))"
    using Cons.prems by (intro Cons.IH) auto
  then obtain s' t' where
    run: "merge_loop (map f rest) (s[k := stat], t[k := msg]) = Inr (s', t')"
    and len: "length s' = n" "length t' = n"
    and vals: "\<forall>i<n. s' ! i = (if i \<in> set rest then fst (snd (f i)) else s[k := stat] ! i)
                  \<and> t' ! i = (if i \<in> set rest then snd (snd (f i)) else t[k := msg] ! i)"
    by blast
  have "merge_loop (map f (k # rest)) (s, t) = Inr (s', t')"
    using run fk k Cons.prems(3,4) by simp
  moreover have "\<forall>i<n. s' ! i = (if i \<in> set (k # rest) then fst (snd (f i)) else s ! i)
                  \<and> t' ! i = (if i \<in> set (k # rest) then snd (snd (f i)) else t ! i)"
    using vals fk notin k Cons.prems(3,4) by (auto simp add: nth_list_update)
  ultimately show ?case using len by blast
qed


lemma dispatch_complete:
  assumes "distinct order" and "set order = {0..<length df}"
    and "\<forall>k<length df. outcome (send_message cfg (net k) k (df ! k)) = Some (k, st k, tx k)"
  shows "dispatch cfg net df order
           = Some (Inr (map st [0..<length df], map tx [0..<length df]))"
proof -
  define n where "n = length df"
  define f where "f = (\<lambda>k. the (outcome (submit_all cfg net df ! k)))"
  have sub: "submit_all cfg net df
      = map (\<lambda>k. send_message cfg (net k) k (df ! k)) [0..<length df]"
    using assms(3) by (intro submit_all_nth) simp
  have f: "f k = (k, st k, tx k)" if "k < n" for k
    using that assms(3) by (simp add: f_def sub n_def)
  have all_done: "\<not> list_ex (\<lambda>f. outcome f = None) (submit_all cfg net df)"
    using assms(3) by (auto simp add: list_ex_iff sub)
  have comp: "completion (submit_all cfg net df) order = map f order"
    by (simp add: completion_def f_def)
  have inrange: "\<forall>k\<in>set order. k < n"
    using assms(2) by (simp add: n_def)
  have "\<exists>s' t'. merge_loop (map f order) (replicate n [], replicate n (JStr [])) = Inr (s', t')
           \<and> length s' = n \<and> length t' = n
           \<and> (\<forall>i<n. s' ! i = (if i \<in> set order then fst (snd (f i)) else replicate n [] ! i)
                  \<and> t' ! i = (if i \<in> set order then snd (snd (f i)) else replicate n (JStr []) ! i))"
    using assms(1) inrange f by (intro merge_loop_writes) auto
  then obtain s' t' where
    run: "merge_loop (map f order) (replicate n [], replicate n (JStr [])) = Inr (s', t')"
    and len: "length s' = n" "length t' = n"
    and vals: "\<forall>i<n. s' ! i = (if i \<in> set order then fst (snd (f i)) else replicate n [] ! i)
                  \<and> t' ! i = (if i \<in> set order then snd (snd (f i)) else replicate n (JStr []) ! i)"
    by blast
  have s': "s' = map st [0..<n]"
    using len vals f assms(2) by (intro nth_equalityI) (auto simp add: n_def)
  have t': "t' = map tx [0..<n]"
    using len vals f assms(2) by (intro nth_equalityI) (auto simp add: n_def)
  show ?thesis
    using all_done run comp s' t' by (simp add: dispatch_def Let_def n_def)
qed

lemma demo_outcomes:
  "outcome (send_message demo_cfg (demo_net 0) 0 demo_row) = Some (0, ''Sent'', JStr ''Success'')"
  "outcome (send_message demo_cfg (demo_net 1) 1 demo_row) = Some (1, ''Error'', JStr ''connection reset'')"
  "outcome (send_message demo_cfg (demo_net 2) 2 demo_row) = Some (2, ''Failed'', JStr ''template not found'')"
  by (simp_all add: send_message_def demo_build_body demo_net_def classify_def get_message_obj)

lemma fold_update_keys:
  "fst ` set (fold (\<lambda>field cm. AList.update field (g field) cm) fs cm0)
     = fst ` set cm0 \<union> set fs"
  by (induction fs arbitrary: cm0) (auto simp add: dom_update)

lemma posted_with_mobile:
  "map_of (column_mapping cfg) ''mobile_no'' = Some mob \<Longrightarrow>
   length (posted (send_message cfg post i r)) = 1"
  by (auto simp add: send_message_def build_body_def Let_def split: reply.splits)

lemma fold_update_map_of:
  "map_of (fold (\<lambda>field cm. AList.update field (g field) cm) fs cm0) k
     = (if k \<in> set fs then Some (g k) else map_of cm0 k)"
  by (induction fs arbitrary: cm0) (auto simp add: update_conv')

lemma get_loc_member:
  "v \<in> set cs \<Longrightarrow> get_loc cs v < length cs \<and> cs ! get_loc cs v = v"
  by (induction cs) auto

lemma map_column_untouched:
  "map_column (c # cs) None untouched
     = \<lparr>mtype = ''column'', mvalue = (if [] \<in> set cs then [] else c)\<rparr>"
  using get_loc_member [of "[]" "c # cs"]
  by (auto simp add: map_column_def untouched_def st_choice_def)

lemma new_template_build_body:
  "build_body new_template_cfg demo_row
     = Inr (JObj [(''userDetails'', JObj [(''number'', JStr ''919000000001'')]),
                  (''notification'',
                     JObj [(''type'', JStr ''whatsapp''),
                           (''sender'', JStr ''919311239211''),
                           (''templateId'', JStr ''welcome_01''),
                           (''params'', JObj [(''name'', JStr ''919000000001'')])])])"
  by (simp add: new_template_cfg_def demo_row_def build_body_def final_img_def dumps_def
      dict_set_def resolve_def row_get_def str_int_def str_nat_919000000001 strip_def
      is_space_def)

lemma dispatch_finishes:
  assumes "distinct order" and "set order = {0..<length df}"
    and "\<forall>k<length df. outcome (send_message cfg (net k) k (df ! k)) \<noteq> None"
  shows "\<exists>status response_texts. dispatch cfg net df order = Some (Inr (status, response_texts))"
proof -
  define res where "res = (\<lambda>k. the (outcome (send_message cfg (net k) k (df ! k))))"
  have "outcome (send_message cfg (net k) k (df ! k))
          = Some (k, fst (snd (res k)), snd (snd (res k)))"
    if "k < length df" for k
  proof -
    from that assms(3) obtain j stat msg
      where o: "outcome (send_message cfg (net k) k (df ! k)) = Some (j, stat, msg)"
      by (metis option.exhaust prod_cases3)
    then have "j = k" by (rule outcome_index)
    with o show ?thesis by (simp add: res_def)
  qed
  then have "dispatch cfg net df order
      = Some (Inr (map (\<lambda>k. fst (snd (res k))) [0..<length df],
                   map (\<lambda>k. snd (snd (res k))) [0..<length df]))"
    using assms(1,2) by (intro dispatch_complete) auto
  then show ?thesis by blast
qed

section \<open>Resolution of one mapped field\<close>

text \<open>
  C6. Resolving a field gives a string for every row and entry (\<open>resolve\<close> is a total
  function into strings). A column entry whose column the row does not have resolves to
  the empty string. An entry that is not a column entry (the custom text) resolves to its
  text, the same for every row.
\<close>

theorem resolve_lenient_and_literal:
  "(mtype m = ''column'' \<and> map_of r (mvalue m) = None \<longrightarrow> resolve r m = []) \<and>
   (mtype m \<noteq> ''column'' \<longrightarrow> resolve r m = mvalue m \<and> resolve r m = resolve r' m)"
  by (simp add: resolve_def row_get_def strip_empty)

theorem resolve_lenient_and_literal_witness:
  "(mtype \<lparr>mtype = ''column'', mvalue = ''Name''\<rparr> = ''column''
      \<and> map_of [(''Phone'', CInt 911)] (mvalue \<lparr>mtype = ''column'', mvalue = ''Name''\<rparr>) = None)
   \<and> resolve [(''Phone'', CInt 911)] \<lparr>mtype = ''column'', mvalue = ''Name''\<rparr> = []
   \<and> mtype \<lparr>mtype = ''custom'', mvalue = ''X1''\<rparr> \<noteq> ''column''
   \<and> resolve [(''Phone'', CInt 911)] \<lparr>mtype = ''custom'', mvalue = ''X1''\<rparr> = ''X1''
   \<and> resolve [(''code'', CStr ''Z9'')] \<lparr>mtype = ''custom'', mvalue = ''X1''\<rparr> = ''X1''"
  using resolve_lenient_and_literal
      [of "\<lparr>mtype = ''column'', mvalue = ''Name''\<rparr>" "[(''Phone'', CInt 911)]"]
    resolve_lenient_and_literal
      [of "\<lparr>mtype = ''custom'', mvalue = ''X1''\<rparr>" "[(''Phone'', CInt 911)]" "[(''code'', CStr ''Z9'')]"]
  by auto

section \<open>The image of a task\<close>

text \<open>
  C7. The image of a task follows a strict priority. With an uploaded image, its URL is
  the image of every row, whatever the row holds. With none, a configured image column
  whose value in the row, rendered and stripped, starts with \<open>http\<close> gives that text.
  In every other case the task has no image.
\<close>

theorem final_img_priority:
  "(image_url cfg \<noteq> [] \<longrightarrow> final_img cfg r = image_url cfg) \<and>
   (image_url cfg = [] \<and> image_col_map cfg \<noteq> [] \<and> map_of r (image_col_map cfg) = Some v
      \<and> startswith (strip (py_str v)) ''http'' \<longrightarrow> final_img cfg r = strip (py_str v)) \<and>
   (image_url cfg = [] \<and>
      (image_col_map cfg = [] \<or> map_of r (image_col_map cfg) = None
        \<or> (\<exists>w. map_of r (image_col_map cfg) = Some w \<and> \<not> startswith (strip (py_str w)) ''http''))
      \<longrightarrow> final_img cfg r = [])"
  by (auto simp add: final_img_def row_get_def strip_empty startswith_def Let_def)

theorem final_img_priority_witness:
  "final_img \<lparr>image_url = ''https://i.ibb.co/a.png'', image_col_map = ''Img'',
               column_mapping = [], template_id = ''t''\<rparr>
      [(''Img'', CStr ''http://row.png'')] = ''https://i.ibb.co/a.png''
   \<and> startswith (strip (py_str (CStr '' http://row.png ''))) ''http''
   \<and> final_img \<lparr>image_url = [], image_col_map = ''Img'', column_mapping = [], template_id = ''t''\<rparr>
      [(''Img'', CStr '' http://row.png '')] = ''http://row.png''
   \<and> \<not> startswith (strip (py_str CNaN)) ''http''
   \<and> final_img \<lparr>image_url = [], image_col_map = ''Img'', column_mapping = [], template_id = ''t''\<rparr>
      [(''Img'', CNaN)] = []"
  using final_img_priority
      [of "\<lparr>image_url = ''https://i.ibb.co/a.png'', image_col_map = ''Img'',
             column_mapping = [], template_id = ''t''\<rparr>"
          "[(''Img'', CStr ''http://row.png'')]"]
    final_img_priority
      [of "\<lparr>image_url = [], image_col_map = ''Img'', column_mapping = [], template_id = ''t''\<rparr>"
          "[(''Img'', CStr '' http://row.png '')]" "CStr '' http://row.png ''"]
    final_img_priority
      [of "\<lparr>image_url = [], image_col_map = ''Img'', column_mapping = [], template_id = ''t''\<rparr>"
          "[(''Img'', CNaN)]"]
  by (simp add: strip_def is_space_def startswith_def)

section \<open>Classification of a task's outcome\<close>

text \<open>
  C5. For a task that posts body \<open>b\<close>: a response with status 200 or 202 and a JSON object
  gives \<open>Sent\<close> with the object's \<open>message\<close>, or \<open>Success\<close> when it has none; a response
  with any other status and a JSON object gives \<open>Failed\<close> with the object's \<open>message\<close>, or
  \<open>HTTP\<close> and the status; an exception of the transport, a body that does not decode, or
  a decoded value without \<open>get\<close> gives \<open>Error\<close> with the exception's text. Whenever the
  call returns, the task returns exactly one triple, with its own index and one of the
  three statuses.
\<close>

theorem outcome_classification:
  assumes "build_body cfg r = Inr b"
  shows
  "(post b = Response code (Inr (JObj d)) \<and> (code = 200 \<or> code = 202) \<longrightarrow>
      outcome (send_message cfg post i r)
        = Some (i, ''Sent'', case map_of d ''message'' of None \<Rightarrow> JStr ''Success'' | Some v \<Rightarrow> v)) \<and>
   (post b = Response code (Inr (JObj d)) \<and> code \<noteq> 200 \<and> code \<noteq> 202 \<longrightarrow>
      outcome (send_message cfg post i r)
        = Some (i, ''Failed'',
            case map_of d ''message'' of None \<Rightarrow> JStr (''HTTP '' @ str_nat code) | Some v \<Rightarrow> v)) \<and>
   (post b = Raises e \<longrightarrow> outcome (send_message cfg post i r) = Some (i, ''Error'', JStr e)) \<and>
   (post b = Response code (Inl e) \<longrightarrow>
      outcome (send_message cfg post i r) = Some (i, ''Error'', JStr e)) \<and>
   (post b = Response code (Inr j) \<and> (\<forall>d. j \<noteq> JObj d) \<longrightarrow>
      outcome (send_message cfg post i r)
        = Some (i, ''Error'',
            JStr (quote # type_name j @ quote # '' object has no attribute '' @ quote # ''get'' @ [quote]))) \<and>
   (post b \<noteq> NoReply \<longrightarrow>
      (\<exists>stat msg. outcome (send_message cfg post i r) = Some (i, stat, msg)
         \<and> stat \<in> {''Sent'', ''Failed'', ''Error''}))"
proof -
  have sent: "post b = Response code (Inr (JObj d)) \<and> (code = 200 \<or> code = 202) \<longrightarrow>
      outcome (send_message cfg post i r)
        = Some (i, ''Sent'', case map_of d ''message'' of None \<Rightarrow> JStr ''Success'' | Some v \<Rightarrow> v)"
    using assms
    by (auto simp add: send_message_def classify_def get_message_obj split: option.splits)
  have failed: "post b = Response code (Inr (JObj d)) \<and> code \<noteq> 200 \<and> code \<noteq> 202 \<longrightarrow>
      outcome (send_message cfg post i r)
        = Some (i, ''Failed'',
            case map_of d ''message'' of None \<Rightarrow> JStr (''HTTP '' @ str_nat code) | Some v \<Rightarrow> v)"
    using assms
    by (auto simp add: send_message_def classify_def get_message_obj split: option.splits)
  have raised: "post b = Raises e \<longrightarrow>
      outcome (send_message cfg post i r) = Some (i, ''Error'', JStr e)"
    using assms by (simp add: send_message_def)
  have malformed: "post b = Response code (Inl e) \<longrightarrow>
      outcome (send_message cfg post i r) = Some (i, ''Error'', JStr e)"
    using assms by (simp add: send_message_def classify_def)
  have no_get: "post b = Response code (Inr j) \<and> (\<forall>d. j \<noteq> JObj d) \<longrightarrow>
      outcome (send_message cfg post i r)
        = Some (i, ''Error'',
            JStr (quote # type_name j @ quote # '' object has no attribute '' @ quote # ''get'' @ [quote]))"
    using assms by (simp add: send_message_def classify_def get_message_not_obj)
  have total: "post b \<noteq> NoReply \<longrightarrow>
      (\<exists>stat msg. outcome (send_message cfg post i r) = Some (i, stat, msg)
         \<and> stat \<in> {''Sent'', ''Failed'', ''Error''})"
  proof (cases "post b")
    case NoReply
    then show ?thesis by simp
  next
    case (Raises x)
    then show ?thesis using assms by (simp add: send_message_def)
  next
    case (Response c dec)
    then show ?thesis using assms
      by (auto simp add: send_message_def classify_def split: sum.splits)
  qed
  from sent failed raised malformed no_get total show ?thesis by blast
qed

theorem outcome_classification_witness:
  "build_body demo_cfg demo_row = Inr demo_body
   \<and> outcome (send_message demo_cfg (\<lambda>_. Response 202 (Inr (JObj [(''message'', JStr ''queued'')]))) 4 demo_row)
       = Some (4, ''Sent'', JStr ''queued'')
   \<and> outcome (send_message demo_cfg (\<lambda>_. Response 401 (Inr (JObj []))) 4 demo_row)
       = Some (4, ''Failed'', JStr ''HTTP 401'')
   \<and> outcome (send_message demo_cfg (\<lambda>_. Raises ''connection refused'') 4 demo_row)
       = Some (4, ''Error'', JStr ''connection refused'')"
  using demo_build_body
    outcome_classification [OF demo_build_body,
      of "\<lambda>_. Response 202 (Inr (JObj [(''message'', JStr ''queued'')]))" 202 "[(''message'', JStr ''queued'')]" 4]
    outcome_classification [OF demo_build_body, of "\<lambda>_. Response 401 (Inr (JObj []))" 401 "[]" 4]
    outcome_classification [OF demo_build_body, of "\<lambda>_. Raises ''connection refused''" _ _ 4 "''connection refused''"]
  by (simp add: str_nat.simps digit_char_def)

section \<open>Decoding comes before the status\<close>

text \<open>
  C10. \<open>response.json()\<close> runs before the status code is looked at: a response whose body
  does not decode gives \<open>Error\<close> with the text of the decoding exception, whatever its
  status, 200 and 202 included. A task that returns \<open>Sent\<close> had a response with status 200
  or 202 whose body did decode.
\<close>

theorem decode_before_status:
  "(build_body cfg r = Inr b \<and> post b = Response code (Inl e) \<longrightarrow>
      outcome (send_message cfg post i r) = Some (i, ''Error'', JStr e)) \<and>
   (outcome (send_message cfg post i r) = Some (i', ''Sent'', msg) \<longrightarrow>
      (\<exists>b code j. build_body cfg r = Inr b \<and> post b = Response code (Inr j)
         \<and> (code = 200 \<or> code = 202)))"
proof (intro conjI impI)
  assume "build_body cfg r = Inr b \<and> post b = Response code (Inl e)"
  then show "outcome (send_message cfg post i r) = Some (i, ''Error'', JStr e)"
    by (simp add: send_message_def classify_def)
next
  assume sent: "outcome (send_message cfg post i r) = Some (i', ''Sent'', msg)"
  show "\<exists>b code j. build_body cfg r = Inr b \<and> post b = Response code (Inr j)
         \<and> (code = 200 \<or> code = 202)"
  proof (cases "build_body cfg r")
    case (Inl e)
    with sent show ?thesis by (simp add: send_message_def)
  next
    case (Inr b)
    show ?thesis
    proof (cases "post b")
      case NoReply
      with sent Inr show ?thesis by (simp add: send_message_def)
    next
      case (Raises x)
      with sent Inr show ?thesis by (simp add: send_message_def)
    next
      case (Response code dec)
      with sent Inr show ?thesis
        by (auto simp add: send_message_def classify_def split: sum.splits if_splits)
    qed
  qed
qed

theorem decode_before_status_witness:
  "build_body demo_cfg demo_row = Inr demo_body
   \<and> outcome (send_message demo_cfg (\<lambda>_. Response 200 (Inl ''Expecting value: line 1 column 1 (char 0)'')) 2 demo_row)
       = Some (2, ''Error'', JStr ''Expecting value: line 1 column 1 (char 0)'')
   \<and> outcome (send_message demo_cfg (\<lambda>_. Response 200 (Inr (JObj []))) 2 demo_row)
       = Some (2, ''Sent'', JStr ''Success'')"
  using demo_build_body
    decode_before_status [of demo_cfg demo_row demo_body
      "\<lambda>_. Response 200 (Inl ''Expecting value: line 1 column 1 (char 0)'')" 200
      "''Expecting value: line 1 column 1 (char 0)''" 2]
  by (simp add: send_message_def classify_def get_message_obj)

section \<open>The recipient's number\<close>

text \<open>
  C3, at the input where the code departs from it. The entry for \<open>mobile_no\<close> is the
  custom text 919000000002, which resolves to that text for every row; line 239 takes the
  entry's value for a column name all the same, the row has no such column, and the number
  posted is the empty string.
\<close>

theorem custom_mobile_number_lost:
  "map_of (column_mapping custom_mobile_cfg) ''mobile_no''
     = Some \<lparr>mtype = ''custom'', mvalue = ''919000000002''\<rparr>
   \<and> resolve demo_row \<lparr>mtype = ''custom'', mvalue = ''919000000002''\<rparr> = ''919000000002''
   \<and> build_body custom_mobile_cfg demo_row
     = Inr (JObj [(''userDetails'', JObj [(''number'', JStr [])]),
                  (''notification'',
                     JObj [(''type'', JStr ''whatsapp''),
                           (''sender'', JStr ''919311239211''),
                           (''templateId'', JStr ''welcome_01''),
                           (''params'', JObj [(''name'', JStr ''Alice'')])])])"
  by (simp add: custom_mobile_cfg_def demo_row_def build_body_def final_img_def dumps_def
      dict_set_def resolve_def row_get_def strip_def is_space_def)

section \<open>Where the media object goes\<close>

text \<open>
  C2 as stated fails: in the body posted for the sample row, which has an image, the
  \<open>notification\<close> object has no member \<open>media\<close>; the media object is the value of the
  key \<open>media\<close> of \<open>params\<close>, so \<open>params\<close> holds a value that is no string.
\<close>

theorem media_inside_params_counterexample:
  "final_img demo_cfg demo_row \<noteq> []
   \<and> (\<exists>b n p. build_body demo_cfg demo_row = Inr b
        \<and> member b ''notification'' = Some n
        \<and> member n ''media'' = None
        \<and> member n ''params'' = Some p
        \<and> member p ''media'' = Some (JObj [(''mediaLink'', JStr ''https://img.example/a.png'')]))"
  by (simp add: demo_final_img demo_build_body demo_body_def)

text \<open>
  C2, amended. For every task with an image, the body posted carries the media object
  with the image as \<open>mediaLink\<close> inside \<open>params\<close>, under the key \<open>media\<close>; the
  \<open>notification\<close> object has the members \<open>type\<close>, \<open>sender\<close>, \<open>templateId\<close> and
  \<open>params\<close> and no member \<open>media\<close>; \<open>mobile_no\<close> is no key of \<open>params\<close>; every other
  entry of \<open>params\<close> is a field of the mapping with the string resolved for it.
\<close>

theorem media_nested_in_params:
  assumes "build_body cfg r = Inr b" and "final_img cfg r \<noteq> []"
  shows "\<exists>n ps. member b ''notification'' = Some n
           \<and> map (\<lambda>k. member n k) [''type'', ''sender'', ''templateId'', ''media'']
               = [Some (JStr ''whatsapp''), Some (JStr ''919311239211''), Some (JStr (template_id cfg)), None]
           \<and> member n ''params'' = Some (JObj ps)
           \<and> map_of ps ''media'' = Some (JObj [(''mediaLink'', JStr (final_img cfg r))])
           \<and> map_of ps ''mobile_no'' = None
           \<and> (\<forall>k v. (k, v) \<in> set ps \<and> k \<noteq> ''media'' \<longrightarrow>
                 (\<exists>m. (k, m) \<in> set (column_mapping cfg) \<and> v = JStr (resolve r m)))"
proof -
  define ps0 where "ps0 = build_params r (column_mapping cfg) []"
  define media where "media = JObj [(''mediaLink'', JStr (final_img cfg r))]"
  define ps where "ps = dict_set ps0 ''media'' media"
  from assms obtain mob where mob: "map_of (column_mapping cfg) ''mobile_no'' = Some mob"
    by (auto simp add: build_body_def Let_def split: option.splits)
  have b: "b = JObj [(''userDetails'', JObj [(''number'', JStr (py_str (row_get r (mvalue mob))))]),
           (''notification'',
              JObj [(''type'', JStr ''whatsapp''),
                    (''sender'', JStr ''919311239211''),
                    (''templateId'', JStr (template_id cfg)),
                    (''params'', JObj ps)])]"
    using assms mob by (simp add: build_body_def Let_def dumps_def ps_def ps0_def media_def)
  have entries0: "k \<noteq> ''mobile_no'' \<and> (\<exists>m. (k, m) \<in> set (column_mapping cfg) \<and> v = JStr (resolve r m))"
    if "(k, v) \<in> set ps0" for k v
    using build_params_entries [of k v r "column_mapping cfg" "[]"] that by (simp add: ps0_def)
  have media: "map_of ps ''media'' = Some media"
    by (simp add: ps_def dict_set_def update_conv')
  have no_mobile: "map_of ps ''mobile_no'' = None"
  proof (rule ccontr)
    assume "map_of ps ''mobile_no'' \<noteq> None"
    then obtain v where "(''mobile_no'', v) \<in> set ps" by (auto dest: map_of_SomeD)
    then have "(''mobile_no'', v) \<in> set ps0"
      by (auto simp add: ps_def dict_set_def dest!: update_entries)
    with entries0 show False by blast
  qed
  have others: "\<forall>k v. (k, v) \<in> set ps \<and> k \<noteq> ''media'' \<longrightarrow>
                 (\<exists>m. (k, m) \<in> set (column_mapping cfg) \<and> v = JStr (resolve r m))"
  proof (intro allI impI)
    fix k v assume "(k, v) \<in> set ps \<and> k \<noteq> ''media''"
    then have "(k, v) \<in> set ps0"
      by (auto simp add: ps_def dict_set_def dest!: update_entries)
    with entries0 show "\<exists>m. (k, m) \<in> set (column_mapping cfg) \<and> v = JStr (resolve r m)" by blast
  qed
  show ?thesis
    using b media no_mobile others by (simp add: media_def)
qed

theorem media_nested_in_params_witness:
  "build_body demo_cfg demo_row = Inr demo_body \<and> final_img demo_cfg demo_row \<noteq> []
   \<and> (\<exists>n ps. member demo_body ''notification'' = Some n
        \<and> member n ''media'' = None
        \<and> member n ''params'' = Some (JObj ps)
        \<and> map_of ps ''media'' = Some (JObj [(''mediaLink'', JStr ''https://img.example/a.png'')])
        \<and> map_of ps ''mobile_no'' = None)"
  using media_nested_in_params [of demo_cfg demo_row demo_body] demo_build_body demo_final_img
  by auto

section \<open>A call that is never answered\<close>

text \<open>
  C9 as stated fails: the call of line 252 has no timeout. When the network never answers
  the request of the sample row, the request has been posted, the task returns nothing,
  and the merge loop of the batch never ends.
\<close>

theorem hung_call_counterexample:
  "posted (send_message demo_cfg (\<lambda>_. NoReply) 0 demo_row) = [demo_body]
   \<and> outcome (send_message demo_cfg (\<lambda>_. NoReply) 0 demo_row) = None
   \<and> dispatch demo_cfg (\<lambda>_ _. NoReply) [demo_row] [0] = None"
  by (simp add: send_message_def demo_build_body dispatch_def submit_all_def max_workers_def)

text \<open>
  C9, amended. Send calls carry no timeout. A task fails to return exactly when it has
  posted its request and the network never answers it (every answer and every exception
  ends the task, see C5); the batch fails to finish exactly when that happens to one of
  its rows.
\<close>

theorem send_without_timeout:
  "(outcome (send_message cfg post i r) = None
      \<longleftrightarrow> (\<exists>b. build_body cfg r = Inr b \<and> post b = NoReply)) \<and>
   (dispatch cfg net df order = None
      \<longleftrightarrow> (\<exists>k<length df. \<exists>b. build_body cfg (df ! k) = Inr b \<and> net k b = NoReply))"
proof
  show "outcome (send_message cfg post i r) = None
      \<longleftrightarrow> (\<exists>b. build_body cfg r = Inr b \<and> post b = NoReply)"
    by (rule outcome_None_iff)
next
  have "dispatch cfg net df order = None
      \<longleftrightarrow> list_ex (\<lambda>f. outcome f = None) (submit_all cfg net df)"
    by (simp add: dispatch_def Let_def)
  also have "\<dots> \<longleftrightarrow> (\<exists>(i, r)\<in>set (enumerate 0 df).
                          outcome (send_message cfg (net i) i r) = None)"
    by (simp add: submit_all_def run_pool_hang_iff max_workers_def)
  also have "\<dots> \<longleftrightarrow> (\<exists>k<length df. outcome (send_message cfg (net k) k (df ! k)) = None)"
    by (rule enumerate_rows)
  also have "\<dots> \<longleftrightarrow> (\<exists>k<length df. \<exists>b. build_body cfg (df ! k) = Inr b \<and> net k b = NoReply)"
    by (simp add: outcome_None_iff)
  finally show "dispatch cfg net df order = None
      \<longleftrightarrow> (\<exists>k<length df. \<exists>b. build_body cfg (df ! k) = Inr b \<and> net k b = NoReply)" .
qed

theorem send_without_timeout_witness:
  "outcome (send_message demo_cfg (\<lambda>_. NoReply) 3 demo_row) = None
   \<and> dispatch demo_cfg (\<lambda>k _. if k = 1 then NoReply else Raises ''reset'') [demo_row, demo_row] [0, 1]
       = None"
proof -
  have a: "\<exists>b. build_body demo_cfg demo_row = Inr b \<and> (\<lambda>_. NoReply) b = NoReply"
    using demo_build_body by simp
  have b: "\<exists>k<length [demo_row, demo_row]. \<exists>b. build_body demo_cfg ([demo_row, demo_row] ! k) = Inr b
             \<and> (\<lambda>k _. if k = 1 then NoReply else Raises ''reset'') k b = NoReply"
    by (rule exI [of _ 1]) (simp add: demo_build_body)
  show ?thesis
    using a b
      send_without_timeout [of demo_cfg "\<lambda>_. NoReply" 3 demo_row
        "\<lambda>k _. if k = 1 then NoReply else Raises ''reset''" "[demo_row, demo_row]" "[0, 1]"]
    by blast
qed

section \<open>The merge keeps the order of the rows\<close>

text \<open>
  C1. For a batch of N rows whose tasks all return, and for every order in which they
  complete (a list that holds every position 0..N-1 once), the merge ends without error
  with two lists of length N; the status and the response text at position k are those
  the task of row k returned; and every row index is written exactly once by the loop.
\<close>

theorem merged_in_row_order:
  assumes "distinct order" and "set order = {0..<length df}"
    and "\<forall>k<length df. outcome (send_message cfg (net k) k (df ! k)) \<noteq> None"
  shows "\<exists>status response_texts.
           dispatch cfg net df order = Some (Inr (status, response_texts))
           \<and> length status = length df \<and> length response_texts = length df
           \<and> (\<forall>k<length df. outcome (send_message cfg (net k) k (df ! k))
                               = Some (k, status ! k, response_texts ! k))
           \<and> (\<forall>k<length df.
                 count_list (map fst (completion (submit_all cfg net df) order)) k = 1)"
proof -
  define res where "res = (\<lambda>k. the (outcome (send_message cfg (net k) k (df ! k))))"
  define st where "st = (\<lambda>k. fst (snd (res k)))"
  define tx where "tx = (\<lambda>k. snd (snd (res k)))"
  have some: "outcome (send_message cfg (net k) k (df ! k)) = Some (k, st k, tx k)"
    if "k < length df" for k
  proof -
    from that assms(3) obtain j stat msg
      where o: "outcome (send_message cfg (net k) k (df ! k)) = Some (j, stat, msg)"
      by (metis option.exhaust prod_cases3)
    then have "j = k" by (rule outcome_index)
    with o show ?thesis by (simp add: st_def tx_def res_def)
  qed
  then have disp: "dispatch cfg net df order
      = Some (Inr (map st [0..<length df], map tx [0..<length df]))"
    using assms(1,2) by (intro dispatch_complete) auto
  have "submit_all cfg net df
      = map (\<lambda>k. send_message cfg (net k) k (df ! k)) [0..<length df]"
    using assms(3) by (rule submit_all_nth)
  then have "completion (submit_all cfg net df) order = map (\<lambda>k. (k, st k, tx k)) order"
    using assms(2) some by (auto simp add: completion_def)
  then have written: "map fst (completion (submit_all cfg net df) order) = order"
    by (simp add: comp_def)
  have once: "\<forall>k<length df. count_list (map fst (completion (submit_all cfg net df) order)) k = 1"
    unfolding written using assms(1,2) by (simp add: count_list_distinct)
  show ?thesis
    using disp some once by auto
qed

theorem merged_in_row_order_witness:
  "distinct [2, 0, 1::nat] \<and> set [2, 0, 1] = {0..<length demo_df}
   \<and> (\<exists>status response_texts.
        dispatch demo_cfg demo_net demo_df [2, 0, 1] = Some (Inr (status, response_texts))
        \<and> map (\<lambda>k. status ! k) [0, 1, 2] = [''Sent'', ''Error'', ''Failed'']
        \<and> map (\<lambda>k. response_texts ! k) [0, 1, 2]
            = [JStr ''Success'', JStr ''connection reset'', JStr ''template not found''])"
proof -
  have d: "distinct [2, 0, 1::nat]" by simp
  have s: "set [2, 0, 1] = {0..<length demo_df}" by (auto simp add: demo_df_def)
  have c: "\<forall>k<length demo_df. outcome (send_message demo_cfg (demo_net k) k (demo_df ! k)) \<noteq> None"
  proof (intro allI impI)
    fix k assume k: "k < length demo_df"
    have "demo_df ! k = demo_row"
      using nth_mem [OF k] by (simp add: demo_df_def)
    then show "outcome (send_message demo_cfg (demo_net k) k (demo_df ! k)) \<noteq> None"
      by (simp add: outcome_None_iff demo_net_def)
  qed
  from merged_in_row_order [OF d s c] obtain status response_texts where
    disp: "dispatch demo_cfg demo_net demo_df [2, 0, 1] = Some (Inr (status, response_texts))"
    and rows: "\<forall>k<length demo_df. outcome (send_message demo_cfg (demo_net k) k (demo_df ! k))
                               = Some (k, status ! k, response_texts ! k)"
    by blast
  have "outcome (send_message demo_cfg (demo_net 0) 0 demo_row) = Some (0, status ! 0, response_texts ! 0)"
    "outcome (send_message demo_cfg (demo_net 1) 1 demo_row) = Some (1, status ! 1, response_texts ! 1)"
    "outcome (send_message demo_cfg (demo_net 2) 2 demo_row) = Some (2, status ! 2, response_texts ! 2)"
    using rows [rule_format, of 0] rows [rule_format, of 1] rows [rule_format, of 2]
    by (simp_all add: demo_df_def)
  with demo_outcomes have vals: "map (\<lambda>k. status ! k) [0, 1, 2] = [''Sent'', ''Error'', ''Failed'']"
    "map (\<lambda>k. response_texts ! k) [0, 1, 2]
            = [JStr ''Success'', JStr ''connection reset'', JStr ''template not found'']"
    by simp_all
  show ?thesis
    by (intro conjI exI [of _ status] exI [of _ response_texts]) (rule d s disp vals)+
qed

section \<open>No gate before the dispatch\<close>

text \<open>
  C4, at an input where the code departs from it. The template's saved mapping is empty,
  so it has no entry for \<open>mobile_no\<close> and none for the placeholder \<open>name\<close> of the body.
  The claim has the dispatch refuse to start, with zero network calls and a
  ConfigurationError. In the code the entries come from the mapping widgets, which come up
  on the first column of the table: the mapping the handler builds has both entries, one
  request is posted for the row, and the row ends \<open>Sent\<close>.
\<close>

theorem unmapped_template_counterexample:
  "findall ''Hi {{name}}'' = [''name'']
   \<and> build_column_mapping [''Phone'', ''Name'', ''Img''] ''Hi {{name}}'' [] untouched (\<lambda>_. untouched)
       = Inr (column_mapping new_template_cfg)
   \<and> length (requests_made new_template_cfg (\<lambda>_ _. Response 200 (Inr (JObj []))) [demo_row]) = 1
   \<and> dispatch new_template_cfg (\<lambda>_ _. Response 200 (Inr (JObj []))) [demo_row] [0]
       = Some (Inr ([''Sent''], [JStr ''Success'']))"
proof (intro conjI)
  show f: "findall ''Hi {{name}}'' = [''name'']" by simp
  show "build_column_mapping [''Phone'', ''Name'', ''Img''] ''Hi {{name}}'' [] untouched (\<lambda>_. untouched)
       = Inr (column_mapping new_template_cfg)"
    unfolding build_column_mapping_def f
    by (simp add: map_column_untouched new_template_cfg_def)
  show "length (requests_made new_template_cfg (\<lambda>_ _. Response 200 (Inr (JObj []))) [demo_row]) = 1"
    by (simp add: requests_made_def submit_all_def max_workers_def send_message_def
        new_template_build_body)
  show "dispatch new_template_cfg (\<lambda>_ _. Response 200 (Inr (JObj []))) [demo_row] [0]
       = Some (Inr ([''Sent''], [JStr ''Success'']))"
    by (simp add: dispatch_def submit_all_def max_workers_def completion_def send_message_def
        new_template_build_body classify_def get_message_obj)
qed

text \<open>
  C4, as the code has it. There is no gate and no ConfigurationError. Whenever the handler
  builds a mapping (lines 145 to 159), that mapping has an entry for \<open>mobile_no\<close> and for
  every placeholder of the template body. An entry that the template's saved mapping lacks
  is the one the untouched widgets give: type \<open>column\<close>, and as its value the column named
  by the empty string if the table has one behind its first column, else the first column
  of the table. With that mapping the dispatch starts: when every call returns, one request
  has been posted for every row, and the merge ends with a result for every row.
\<close>

theorem missing_entries_filled_by_widgets:
  assumes "build_column_mapping columns message saved_mapping ui_mobile ui = Inr cm"
  shows
    "set (''mobile_no'' # findall message) \<subseteq> fst ` set cm
     \<and> (columns = c # cs \<and> map_of saved_mapping ''mobile_no'' = None \<and> ui_mobile = untouched
          \<and> ''mobile_no'' \<notin> set (findall message) \<longrightarrow>
        map_of cm ''mobile_no''
          = Some \<lparr>mtype = ''column'', mvalue = (if [] \<in> set cs then [] else c)\<rparr>)
     \<and> (\<forall>field\<in>set (findall message).
          columns = c # cs \<and> map_of saved_mapping field = None \<and> ui field = untouched \<longrightarrow>
          map_of cm field
            = Some \<lparr>mtype = ''column'', mvalue = (if [] \<in> set cs then [] else c)\<rparr>)
     \<and> (column_mapping cfg = cm
          \<and> (\<forall>k<length df. outcome (send_message cfg (net k) k (df ! k)) \<noteq> None) \<longrightarrow>
        length (requests_made cfg net df) = length df
        \<and> (distinct order \<and> set order = {0..<length df} \<longrightarrow>
             (\<exists>status response_texts.
                dispatch cfg net df order = Some (Inr (status, response_texts)))))"
proof -
  define g where "g = (\<lambda>field. map_column columns (map_of saved_mapping field) (ui field))"
  define cm0 where
    "cm0 = [(''mobile_no'', map_column columns (map_of saved_mapping ''mobile_no'') ui_mobile)]"
  have cm: "cm = fold (\<lambda>field cm. AList.update field (g field) cm) (findall message) cm0"
    using assms by (simp add: build_column_mapping_def Let_def g_def cm0_def split: if_splits)
  have keys: "set (''mobile_no'' # findall message) \<subseteq> fst ` set cm"
    by (simp add: cm fold_update_keys cm0_def)
  have look: "map_of cm k = (if k \<in> set (findall message) then Some (g k) else map_of cm0 k)" for k
    by (simp add: cm fold_update_map_of)
  have mobile: "columns = c # cs \<and> map_of saved_mapping ''mobile_no'' = None \<and> ui_mobile = untouched
          \<and> ''mobile_no'' \<notin> set (findall message) \<longrightarrow>
        map_of cm ''mobile_no''
          = Some \<lparr>mtype = ''column'', mvalue = (if [] \<in> set cs then [] else c)\<rparr>"
    by (simp add: look cm0_def map_column_untouched)
  have fields: "\<forall>field\<in>set (findall message).
          columns = c # cs \<and> map_of saved_mapping field = None \<and> ui field = untouched \<longrightarrow>
          map_of cm field
            = Some \<lparr>mtype = ''column'', mvalue = (if [] \<in> set cs then [] else c)\<rparr>"
    by (simp add: look g_def map_column_untouched)
  have runs: "length (requests_made cfg net df) = length df
        \<and> (distinct order \<and> set order = {0..<length df} \<longrightarrow>
             (\<exists>status response_texts.
                dispatch cfg net df order = Some (Inr (status, response_texts))))"
    if c: "column_mapping cfg = cm"
      and r: "\<forall>k<length df. outcome (send_message cfg (net k) k (df ! k)) \<noteq> None"
  proof
    from keys have "''mobile_no'' \<in> fst ` set cm" by simp
    then obtain mob where mob: "map_of (column_mapping cfg) ''mobile_no'' = Some mob"
      using c by (metis map_of_eq_None_iff not_Some_eq)
    have "length (concat (map posted (map (\<lambda>k. send_message cfg (net k) k (df ! k)) xs)))
        = length xs" for xs
      by (induction xs) (simp_all add: posted_with_mobile [OF mob])
    then show "length (requests_made cfg net df) = length df"
      by (simp add: requests_made_def submit_all_nth [OF r] del: map_map)
    show "distinct order \<and> set order = {0..<length df} \<longrightarrow>
             (\<exists>status response_texts.
                dispatch cfg net df order = Some (Inr (status, response_texts)))"
      using r by (auto intro: dispatch_finishes)
  qed
  from keys mobile fields runs show ?thesis by blast
qed

theorem missing_entries_filled_by_widgets_witness:
  "build_column_mapping [''Phone'', ''Name'', ''Img''] ''Hi {{name}}'' [] untouched (\<lambda>_. untouched)
       = Inr (column_mapping new_template_cfg)
   \<and> map_of ([] :: (string \<times> saved_entry) list) ''name'' = None
   \<and> ''name'' \<in> set (findall ''Hi {{name}}'')
   \<and> map_of (column_mapping new_template_cfg) ''name''
       = Some \<lparr>mtype = ''column'', mvalue = ''Phone''\<rparr>
   \<and> map_of (column_mapping new_template_cfg) ''mobile_no''
       = Some \<lparr>mtype = ''column'', mvalue = ''Phone''\<rparr>
   \<and> length (requests_made new_template_cfg demo_net demo_df) = length demo_df
   \<and> (\<exists>status response_texts.
        dispatch new_template_cfg demo_net demo_df [1, 2, 0] = Some (Inr (status, response_texts)))"
proof -
  have f: "findall ''Hi {{name}}'' = [''name'']" by simp
  have b: "build_column_mapping [''Phone'', ''Name'', ''Img''] ''Hi {{name}}'' [] untouched (\<lambda>_. untouched)
       = Inr (column_mapping new_template_cfg)"
    unfolding build_column_mapping_def f
    by (simp add: map_column_untouched new_template_cfg_def)
  have r: "\<forall>k<length demo_df.
      outcome (send_message new_template_cfg (demo_net k) k (demo_df ! k)) \<noteq> None"
    by (simp add: outcome_None_iff demo_net_def)
  have o: "distinct [1, 2, 0::nat] \<and> set [1, 2, 0::nat] = {0..<length demo_df}"
    by (auto simp add: demo_df_def)
  show ?thesis
    using b r o f
      missing_entries_filled_by_widgets [OF b, of "''Phone''" "[''Name'', ''Img'']" new_template_cfg demo_df demo_net "[1, 2, 0]"]
    by simp
qed

section \<open>The highlight of the report\<close>

text \<open>
  C8, at an input where the code departs from it. The table has one original column, so
  \<open>Status\<close> is the second column of the sheet; line 288 reads the fourth, which is blank,
  and the row with status \<open>Failed\<close> gets no fill.
\<close>

theorem failed_row_left_unmarked:
  "build_report one_column_df [''Failed''] [JStr ''Invalid number'']
     = Inr [[(XInt 919000000001, False), (XStr ''Failed'', False), (XStr ''Invalid number'', False)]]
   \<and> \<not> marked [(XInt 919000000001, False), (XStr ''Failed'', False), (XStr ''Invalid number'', False)]"
  by (simp add: build_report_def one_column_df_def set_column_def highlight_def highlight_row_def
      column_D_def marked_def lower_def lower_char_def)

text \<open>
  The same test marks a \<open>Sent\<close> row of a table whose fourth original column holds the text
  \<open>Error\<close>; with exactly three original columns \<open>Status\<close> is the fourth column and the
  rows are marked as C8 says.
\<close>

lemma sent_row_marked_by_fourth_column:
  "build_report four_column_df [''Sent''] [JStr ''Success'']
     = Inr [[(XInt 919000000001, True), (XStr ''Alice'', True), (XStr ''Pune'', True),
             (XStr ''Error'', True), (XStr ''Sent'', True), (XStr ''Success'', True)]]"
  by (simp add: build_report_def four_column_df_def set_column_def highlight_def highlight_row_def
      column_D_def lower_def lower_char_def)

lemma three_columns_marked_as_expected:
  "map (map_sum id (map marked))
     [build_report three_column_df [''Sent'', ''Failed'', ''Error'']
        [JStr ''Success'', JStr ''bad'', JStr ''reset'']]
     = [Inr [False, True, True]]"
  by (simp add: build_report_def three_column_df_def set_column_def highlight_def highlight_row_def
      column_D_def marked_def lower_def lower_char_def)

end
